theory Spec2Isabelle
  imports Complex_Main "HOL-Library.List_Lexorder" "HOL-Library.Char_ord"
begin

section \<open>Data model\<close>

text \<open>
  The dashboard of \<^verbatim>\<open>src/app/main.py\<close> works on pandas data frames. A cell is a missing
  value (NaN, None, NaT), a number or a string; parsed timestamps are carried as numbers
  (their position on the time line). A frame is its list of column labels and its rows,
  each row holding one cell per column, in column order.
\<close>

datatype cell = Null | Num real | Str string

record frame =
  columns :: "string list"
  rows :: "cell list list"

text \<open>Exceptions of the source, as values.\<close>

datatype error =
    FileNotFoundError string
  | ValueError string
  | ParserError string
  | KeyError string
  | TypeError string
  | IndexError

text \<open>
  A frame read by pandas has pairwise different column labels and one cell per column in
  every row.
\<close>

definition wf_frame :: "frame \<Rightarrow> bool" where
  "wf_frame df =
     (distinct (columns df) \<and> list_all (\<lambda>r. length r = length (columns df)) (rows df))"

text \<open>The cell of a row under a column label (NaN when the row has no such cell).\<close>

definition cell_at :: "string list \<Rightarrow> cell list \<Rightarrow> string \<Rightarrow> cell" where
  "cell_at cols r c = (case map_of (zip cols r) c of Some v \<Rightarrow> v | None \<Rightarrow> Null)"

text \<open>\<^verbatim>\<open>df[c]\<close>: the values of one column, row by row.\<close>

definition column :: "frame \<Rightarrow> string \<Rightarrow> cell list" where
  "column df c = map (\<lambda>r. cell_at (columns df) r c) (rows df)"

section \<open>String operations of the Python runtime\<close>

text \<open>\<^verbatim>\<open>s.endswith(suf)\<close> and \<^verbatim>\<open>s.startswith(pre)\<close>.\<close>

definition endswith :: "string \<Rightarrow> string \<Rightarrow> bool" where
  "endswith s suf = (length suf \<le> length s \<and> drop (length s - length suf) s = suf)"

definition startswith :: "string \<Rightarrow> string \<Rightarrow> bool" where
  "startswith s pre = (take (length pre) s = pre)"

text \<open>\<^verbatim>\<open>s.rfind(c)\<close> for a single character: the last position of \<open>c\<close>, if any.\<close>

fun rfind :: "char \<Rightarrow> string \<Rightarrow> nat option" where
  "rfind c [] = None"
| "rfind c (x # xs) =
     (case rfind c xs of
        Some i \<Rightarrow> Some (Suc i)
      | None \<Rightarrow> if x = c then Some 0 else None)"

text \<open>
  \<^verbatim>\<open>PurePath.stem\<close>: the file name without its last suffix. pathlib cuts at the last dot
  unless that dot is the first or the last character of the name.
\<close>

definition stem :: "string \<Rightarrow> string" where
  "stem name =
     (case rfind (CHR ''.'') name of
        None \<Rightarrow> name
      | Some i \<Rightarrow> if 0 < i \<and> i + 1 < length name then take i name else name)"

text \<open>
  \<^verbatim>\<open>s.replace(old, new)\<close>: every non-overlapping occurrence of \<open>old\<close>, scanning from the
  left, is replaced. With an empty \<open>old\<close>, Python puts \<open>new\<close> before every character and
  at the end.
\<close>

function replace :: "string \<Rightarrow> string \<Rightarrow> string \<Rightarrow> string" where
  "replace s old new =
     (if old = [] then new @ concat (map (\<lambda>c. c # new) s)
      else if s = [] then []
      else if startswith s old then new @ replace (drop (length old) s) old new
      else hd s # replace (tl s) old new)"
  by pat_completeness auto
termination
  by (relation "measure (\<lambda>(s, old, new). length s)") (auto simp: startswith_def)

declare replace.simps [simp del]

section \<open>RegionCatalog: \<^verbatim>\<open>list_available_countries\<close>\<close>

text \<open>
  \<^verbatim>\<open>DATA_DIR.glob("*_clean.csv")\<close> keeps the entries of the directory whose name ends with
  \<^verbatim>\<open>_clean.csv\<close> (the star matches any run of characters, the empty one too).
\<close>

definition glob_star :: "string list \<Rightarrow> string \<Rightarrow> string list" where
  "glob_star names suf = filter (\<lambda>n. endswith n suf) names"

text \<open>
  The directory is given as the names of its entries, or as the error the operating
  system raised when it was read. The function returns the diagnostics it showed
  (\<^verbatim>\<open>st.error\<close>) and the list of region keys.
\<close>

definition list_available_countries :: "string + string list \<Rightarrow> string list \<times> string list" where
  "list_available_countries listing =
     (case listing of
        Inl e \<Rightarrow> ([''Error accessing data directory: '' @ e], [])
      | Inr names \<Rightarrow>
          (let files = sort (glob_star names ''_clean.csv'')
           in ([], map (\<lambda>f. replace (stem f) ''_clean'' '''') files)))"

section \<open>RegionLoader: \<^verbatim>\<open>load_country_df\<close>\<close>

text \<open>\<^verbatim>\<open>DATA_DIR / f"{country_key}_clean.csv"\<close>, with \<^verbatim>\<open>DATA_DIR = Path("data")\<close>.\<close>

definition data_dir :: string where
  "data_dir = ''data''"

text \<open>
  The \<^verbatim>\<open>/\<close> of pathlib on POSIX paths, and the string of the result. A right operand that
  starts with a slash replaces the left one; otherwise the parts of both follow each
  other. The parts are what stands between slashes, empty parts and \<^verbatim>\<open>.\<close> left out; a
  path keeps two leading slashes, and takes three or more as one.
\<close>

fun split_on :: "char \<Rightarrow> string \<Rightarrow> string list" where
  "split_on c [] = [[]]"
| "split_on c (x # xs) =
     (if x = c then [] # split_on c xs
      else case split_on c xs of [] \<Rightarrow> [[x]] | s # ss \<Rightarrow> (x # s) # ss)"

definition join_with :: "string \<Rightarrow> string list \<Rightarrow> string" where
  "join_with sep parts =
     (case parts of [] \<Rightarrow> [] | p # ps \<Rightarrow> p @ concat (map (\<lambda>q. sep @ q) ps))"

definition path_root :: "string \<Rightarrow> string" where
  "path_root p =
     (if startswith p ''//'' \<and> \<not> startswith p ''///'' then ''//''
      else if startswith p ''/'' then ''/''
      else [])"

definition path_tail :: "string \<Rightarrow> string list" where
  "path_tail p = filter (\<lambda>x. x \<noteq> [] \<and> x \<noteq> ''.'') (split_on (CHR ''/'') p)"

definition path_str :: "string \<Rightarrow> string list \<Rightarrow> string" where
  "path_str anchor parts =
     (if anchor = [] \<and> parts = [] then ''.'' else anchor @ join_with ''/'' parts)"

definition path_join :: "string \<Rightarrow> string \<Rightarrow> string" where
  "path_join base seg =
     (if startswith seg ''/'' then path_str (path_root seg) (path_tail seg)
      else path_str (path_root base) (path_tail base @ path_tail seg))"

definition country_path :: "string \<Rightarrow> string" where
  "country_path country_key = path_join data_dir (country_key @ ''_clean.csv'')"

text \<open>
  \<^verbatim>\<open>df[c] = v\<close> for a label \<open>c\<close> that is not yet a column (the source's only use): a new
  last column holding \<open>v\<close> in every row.
\<close>

definition assign_new_column :: "frame \<Rightarrow> string \<Rightarrow> cell \<Rightarrow> frame" where
  "assign_new_column df c v =
     \<lparr>columns = columns df @ [c], rows = map (\<lambda>r. r @ [v]) (rows df)\<rparr>"

text \<open>
  The file system maps a path to the text of the file there; \<open>read_csv\<close> stands for
  \<^verbatim>\<open>pd.read_csv(p, parse_dates=['Timestamp'])\<close>, which returns a frame or raises.
\<close>

type_synonym filesystem = "string \<rightharpoonup> string"
type_synonym reader = "string \<Rightarrow> error + frame"

definition load_country_df :: "filesystem \<Rightarrow> reader \<Rightarrow> string \<Rightarrow> error + frame" where
  "load_country_df fs read_csv country_key =
     (let p = country_path country_key in
      case fs p of
        None \<Rightarrow> Inl (FileNotFoundError (''Data file not found: '' @ p))
      | Some txt \<Rightarrow>
          (case read_csv txt of
             Inl e \<Rightarrow> Inl e
           | Inr df \<Rightarrow>
               Inr (if ''country'' \<notin> set (columns df)
                    then assign_new_column df ''country'' (Str country_key)
                    else df)))"

section \<open>DatasetCombiner: \<^verbatim>\<open>combine_countries\<close>\<close>

text \<open>
  \<^verbatim>\<open>pd.concat(frames, ignore_index=True)\<close>: the columns are the union of the frames'
  columns in order of first appearance, every row is re-indexed to them (NaN where its
  frame has no such column), and the rows follow each other frame by frame.
\<close>

definition union_cols :: "string list list \<Rightarrow> string list" where
  "union_cols css = fold (\<lambda>c acc. if c \<in> set acc then acc else acc @ [c]) (concat css) []"

definition reindex :: "string list \<Rightarrow> string list \<Rightarrow> cell list \<Rightarrow> cell list" where
  "reindex cols new_cols r = map (cell_at cols r) new_cols"

definition concat_frames :: "frame list \<Rightarrow> frame" where
  "concat_frames frames =
     (let cols = union_cols (map columns frames)
      in \<lparr>columns = cols,
          rows = concat (map (\<lambda>f. map (reindex (columns f) cols) (rows f)) frames)\<rparr>)"

text \<open>
  The loop over the keys. It carries the frames loaded so far and the warnings shown so
  far (\<^verbatim>\<open>st.warning\<close>); only \<^verbatim>\<open>FileNotFoundError\<close> is caught, any other exception
  leaves the loop at once.
\<close>

definition warning_text :: "string \<Rightarrow> string \<Rightarrow> string" where
  "warning_text c msg = ''Data not found for '' @ c @ '': '' @ msg"

fun combine_loop ::
  "filesystem \<Rightarrow> reader \<Rightarrow> string list \<Rightarrow> frame list \<Rightarrow> string list
     \<Rightarrow> string list \<times> (error + frame list)" where
  "combine_loop fs read_csv [] frames warnings = (warnings, Inr frames)"
| "combine_loop fs read_csv (c # cs) frames warnings =
     (case load_country_df fs read_csv c of
        Inr df \<Rightarrow> combine_loop fs read_csv cs (frames @ [df]) warnings
      | Inl e \<Rightarrow>
          (case e of
             FileNotFoundError msg \<Rightarrow>
               combine_loop fs read_csv cs frames (warnings @ [warning_text c msg])
           | _ \<Rightarrow> (warnings, Inl e)))"

definition combine_countries ::
  "filesystem \<Rightarrow> reader \<Rightarrow> string list \<Rightarrow> string list \<times> (error + frame)" where
  "combine_countries fs read_csv country_keys =
     (case combine_loop fs read_csv country_keys [] [] of
        (warnings, Inl e) \<Rightarrow> (warnings, Inl e)
      | (warnings, Inr frames) \<Rightarrow>
          if frames = [] then (warnings, Inl (ValueError ''No valid country data found''))
          else (warnings, Inr (concat_frames frames)))"

section \<open>AggregationEngine\<close>

subsection \<open>Sampling for the box plot: \<^verbatim>\<open>fig_boxplot\<close>\<close>

text \<open>
  \<^verbatim>\<open>df.sample(n, random_state=seed)\<close> picks row positions with numpy's generator. The
  generator is a parameter here: from the seed, the number of rows and \<open>n\<close> it gives the
  positions picked, in the order picked. pandas refuses a negative \<open>n\<close> and an \<open>n\<close>
  above the number of rows (sampling is without replacement).
\<close>

type_synonym sampler = "nat \<Rightarrow> nat \<Rightarrow> nat \<Rightarrow> nat list"

definition take_rows :: "cell list list \<Rightarrow> nat list \<Rightarrow> error + cell list list" where
  "take_rows rs idx =
     (if list_all (\<lambda>i. i < length rs) idx then Inr (map (\<lambda>i. rs ! i) idx) else Inl IndexError)"

definition sample :: "sampler \<Rightarrow> frame \<Rightarrow> int \<Rightarrow> nat \<Rightarrow> error + frame" where
  "sample choice df k random_state =
     (if k < 0 then Inl (ValueError ''A negative number of rows requested'')
      else if int (length (rows df)) < k
      then Inl (ValueError ''Cannot take a larger sample than population'')
      else case take_rows (rows df) (choice random_state (length (rows df)) (nat k)) of
             Inl e \<Rightarrow> Inl e
           | Inr rs \<Rightarrow> Inr \<lparr>columns = columns df, rows = rs\<rparr>)"

text \<open>
  The frame the box plot is drawn from (\<^verbatim>\<open>df_plot\<close>); the chart itself is rendering.
  \<^verbatim>\<open>sample_n\<close> is \<^verbatim>\<open>None\<close> or an integer, and the test \<^verbatim>\<open>sample_n and ...\<close> is false
  for \<^verbatim>\<open>None\<close> and for \<open>0\<close>.
\<close>

definition fig_boxplot :: "sampler \<Rightarrow> frame \<Rightarrow> int option \<Rightarrow> error + frame" where
  "fig_boxplot choice df sample_n =
     (case sample_n of
        None \<Rightarrow> Inr df
      | Some k \<Rightarrow>
          if k \<noteq> 0 \<and> int (length (rows df)) > k then sample choice df k 1 else Inr df)"


subsection \<open>Grouped statistics: \<^verbatim>\<open>top_regions_table\<close>\<close>

text \<open>\<^verbatim>\<open>series.notna().any()\<close>.\<close>

definition notna_any :: "cell list \<Rightarrow> bool" where
  "notna_any vs = list_ex (\<lambda>v. v \<noteq> Null) vs"

definition group_col :: "frame \<Rightarrow> string" where
  "group_col df =
     (if ''Comments'' \<in> set (columns df) \<and> notna_any (column df ''Comments'')
      then ''Comments'' else ''country'')"

text \<open>One row of the statistics table; \<open>None\<close> is NaN.\<close>

record agg_row =
  agg_key :: cell
  agg_n :: nat
  agg_mean :: "real option"
  agg_median :: "real option"
  agg_std :: "real option"

text \<open>
  Sorting by a comparison, stable. \<^verbatim>\<open>groupby\<close> orders the groups by key (numbers before
  strings), and \<^verbatim>\<open>sort_values\<close> orders the table; pandas leaves the order of rows of
  equal mean open, the model keeps them in group order.
\<close>

fun insort_by :: "('a \<Rightarrow> 'a \<Rightarrow> bool) \<Rightarrow> 'a \<Rightarrow> 'a list \<Rightarrow> 'a list" where
  "insort_by le x [] = [x]"
| "insort_by le x (y # ys) = (if le x y then x # y # ys else y # insort_by le x ys)"

definition sort_by :: "('a \<Rightarrow> 'a \<Rightarrow> bool) \<Rightarrow> 'a list \<Rightarrow> 'a list" where
  "sort_by le xs = foldr (insort_by le) xs []"

fun cell_le :: "cell \<Rightarrow> cell \<Rightarrow> bool" where
  "cell_le Null _ = True"
| "cell_le (Num a) Null = False"
| "cell_le (Num a) (Num b) = (a \<le> b)"
| "cell_le (Num a) (Str b) = True"
| "cell_le (Str a) (Str b) = (a \<le> b)"
| "cell_le (Str a) _ = False"

text \<open>The groups: the values of the grouping column, NaN dropped, each once, in key order.\<close>

definition group_keys :: "frame \<Rightarrow> string \<Rightarrow> cell list" where
  "group_keys df gc = sort_by cell_le (remdups (filter (\<lambda>v. v \<noteq> Null) (column df gc)))"

text \<open>The metric's cells in the rows of one group, and the numbers among them.\<close>

definition group_values :: "frame \<Rightarrow> string \<Rightarrow> string \<Rightarrow> cell \<Rightarrow> cell list" where
  "group_values df gc metric k =
     map (\<lambda>r. cell_at (columns df) r metric)
       (filter (\<lambda>r. cell_at (columns df) r gc = k) (rows df))"

definition numbers :: "cell list \<Rightarrow> real list" where
  "numbers vs = concat (map (\<lambda>v. case v of Num x \<Rightarrow> [x] | _ \<Rightarrow> []) vs)"

text \<open>
  The aggregations \<^verbatim>\<open>count\<close>, \<^verbatim>\<open>mean\<close>, \<^verbatim>\<open>median\<close> and \<^verbatim>\<open>std\<close> of pandas over the
  numbers of a group: NaN cells are left out, the standard deviation divides by the
  count less one and is NaN unless the count exceeds one.
\<close>

definition mean_of :: "real list \<Rightarrow> real option" where
  "mean_of xs = (if xs = [] then None else Some (sum_list xs / real (length xs)))"

definition median_of :: "real list \<Rightarrow> real option" where
  "median_of xs =
     (let s = sort xs; m = length s in
      if m = 0 then None
      else if odd m then Some (s ! (m div 2))
      else Some ((s ! (m div 2 - 1) + s ! (m div 2)) / 2))"

definition std_of :: "real list \<Rightarrow> real option" where
  "std_of xs =
     (if length xs \<le> 1 then None
      else let m = sum_list xs / real (length xs)
           in Some (sqrt (sum_list (map (\<lambda>x. (x - m)\<^sup>2) xs) / real (length xs - 1))))"

definition aggregate :: "cell \<Rightarrow> real list \<Rightarrow> agg_row" where
  "aggregate k xs =
     \<lparr>agg_key = k, agg_n = length xs, agg_mean = mean_of xs,
      agg_median = median_of xs, agg_std = std_of xs\<rparr>"

text \<open>\<^verbatim>\<open>sort_values('mean', ascending=False)\<close>: larger means first, NaN last.\<close>

definition mean_ge :: "agg_row \<Rightarrow> agg_row \<Rightarrow> bool" where
  "mean_ge a b =
     (case agg_mean a of
        None \<Rightarrow> agg_mean b = None
      | Some x \<Rightarrow> (case agg_mean b of None \<Rightarrow> True | Some y \<Rightarrow> y \<le> x))"

text \<open>\<^verbatim>\<open>head(k)\<close>: the first \<open>k\<close> rows; for a negative \<open>k\<close>, all but the last \<open>-k\<close>.\<close>

definition head :: "int \<Rightarrow> 'a list \<Rightarrow> 'a list" where
  "head k xs = (if 0 \<le> k then take (nat k) xs else take (length xs - nat (- k)) xs)"

definition is_str :: "cell \<Rightarrow> bool" where
  "is_str v = (case v of Str _ \<Rightarrow> True | _ \<Rightarrow> False)"

text \<open>
  \<^verbatim>\<open>groupby\<close> raises \<^verbatim>\<open>KeyError\<close> for a grouping column or a metric the frame does not
  have, and the aggregation raises on a metric column that holds text.
\<close>

definition top_regions_table :: "frame \<Rightarrow> string \<Rightarrow> int \<Rightarrow> error + agg_row list" where
  "top_regions_table df metric top_n =
     (let gc = group_col df in
      if gc \<notin> set (columns df) then Inl (KeyError gc)
      else if metric \<notin> set (columns df) then Inl (KeyError (''Column not found: '' @ metric))
      else if list_ex is_str (column df metric)
      then Inl (TypeError ''agg function failed'')
      else
        let table = map (\<lambda>k. aggregate k (numbers (group_values df gc metric k)))
                      (group_keys df gc)
        in Inr (head top_n (sort_by mean_ge table)))"

section \<open>A small data directory\<close>

text \<open>
  Concrete inputs on which the theorems below are exercised: a directory of five files
  and a reader that knows their texts. The file of Benin has no \<^verbatim>\<open>country\<close> column, the
  file of Togo has one, one file holds only its header line, one has a \<^verbatim>\<open>country\<close>
  column with a blank cell, and one is not a table.
\<close>

definition ex_fs :: filesystem where
  "ex_fs =
     [''data/benin_clean.csv'' \<mapsto> ''benin'',
      ''data/togo_clean.csv'' \<mapsto> ''togo'',
      ''data/header_clean.csv'' \<mapsto> ''header'',
      ''data/blank_clean.csv'' \<mapsto> ''blank'',
      ''data/broken_clean.csv'' \<mapsto> ''broken'']"

definition ex_benin :: frame where
  "ex_benin = \<lparr>columns = [''Timestamp'', ''GHI''], rows = [[Num 1, Num 10], [Num 2, Num 20]]\<rparr>"

definition ex_togo :: frame where
  "ex_togo =
     \<lparr>columns = [''Timestamp'', ''GHI'', ''country''], rows = [[Num 3, Num 30, Str ''togo'']]\<rparr>"

definition ex_header :: frame where
  "ex_header = \<lparr>columns = [''Timestamp'', ''GHI''], rows = []\<rparr>"

definition ex_blank :: frame where
  "ex_blank = \<lparr>columns = [''Timestamp'', ''GHI'', ''country''], rows = [[Num 4, Num 40, Null]]\<rparr>"

definition ex_read_csv :: reader where
  "ex_read_csv txt =
     (if txt = ''benin'' then Inr ex_benin
      else if txt = ''togo'' then Inr ex_togo
      else if txt = ''header'' then Inr ex_header
      else if txt = ''blank'' then Inr ex_blank
      else Inl (ParserError ''Error tokenizing data''))"


text \<open>A combined table of three rows, one group of which has a single row.\<close>

definition ex_table :: frame where
  "ex_table =
     \<lparr>columns = [''Timestamp'', ''GHI'', ''country''],
      rows = [[Num 1, Num 10, Str ''benin''], [Num 2, Num 20, Str ''benin''],
              [Num 3, Num 30, Str ''togo'']]\<rparr>"



section \<open>Facts about the loader, the concatenation and the loop\<close>

text \<open>For a key without a slash the path is the plain concatenation.\<close>

lemma split_on_absent: "c \<notin> set s \<Longrightarrow> split_on c s = [s]"
  by (induction s) auto

lemma country_path_plain:
  assumes "CHR ''/'' \<notin> set k"
  shows "country_path k = ''data/'' @ k @ ''_clean.csv''"
proof -
  let ?seg = "k @ ''_clean.csv''"
  from assms have no: "CHR ''/'' \<notin> set ?seg" by simp
  then have one: "split_on (CHR ''/'') ?seg = [?seg]" by (rule split_on_absent)
  have ne: "?seg \<noteq> []" and nd: "?seg \<noteq> ''.''" by (simp_all add: append_eq_Cons_conv)
  from no ne have ns: "\<not> startswith ?seg ''/''"
    by (cases ?seg) (auto simp: startswith_def)
  have tail: "path_tail ?seg = [?seg]"
    unfolding path_tail_def one using ne nd by simp
  have base: "path_tail data_dir = [''data'']" "path_root data_dir = []"
    by (simp_all add: path_tail_def path_root_def data_dir_def startswith_def)
  show ?thesis
    unfolding country_path_def path_join_def tail base using ns
    by (simp add: path_str_def join_with_def)
qed

lemma load_missing:
  "fs (country_path k) = None \<Longrightarrow>
   load_country_df fs rd k = Inl (FileNotFoundError (''Data file not found: '' @ country_path k))"
  by (simp add: load_country_df_def)

lemma load_present:
  "fs (country_path k) = Some txt \<Longrightarrow> rd txt = Inr f \<Longrightarrow>
   load_country_df fs rd k =
     Inr (if ''country'' \<notin> set (columns f) then assign_new_column f ''country'' (Str k) else f)"
  by (simp add: load_country_df_def)

lemma load_read_error:
  "fs (country_path k) = Some txt \<Longrightarrow> rd txt = Inl e \<Longrightarrow> load_country_df fs rd k = Inl e"
  by (simp add: load_country_df_def)

lemma load_Inr_cases:
  assumes "load_country_df fs rd k = Inr f'"
  obtains content f where "fs (country_path k) = Some content" and "rd content = Inr f"
    and "f' = (if ''country'' \<notin> set (columns f) then assign_new_column f ''country'' (Str k) else f)"
  using assms by (auto simp: load_country_df_def Let_def split: option.splits sum.splits)

lemma fold_union_set:
  "set (fold (\<lambda>c acc. if c \<in> set acc then acc else acc @ [c]) xs acc) = set acc \<union> set xs"
  by (induction xs arbitrary: acc) auto

lemma set_union_cols: "set (union_cols css) = \<Union> (set ` set css)"
  by (simp add: union_cols_def fold_union_set)

lemma fold_union_distinct:
  "distinct acc \<Longrightarrow> distinct (fold (\<lambda>c acc. if c \<in> set acc then acc else acc @ [c]) xs acc)"
  by (induction xs arbitrary: acc) auto

lemma cell_at_outside: "c \<notin> set cols \<Longrightarrow> cell_at cols r c = Null"
proof -
  assume "c \<notin> set cols"
  then have "c \<notin> fst ` set (zip cols r)" by (auto dest: set_zip_leftD)
  then have "map_of (zip cols r) c = None" by (simp add: map_of_eq_None_iff)
  then show ?thesis by (simp add: cell_at_def)
qed

lemma cell_at_reindex:
  "cell_at new (reindex cols new r) c = (if c \<in> set new then cell_at cols r c else Null)"
  by (simp add: cell_at_def reindex_def map_of_zip_map)

lemma cell_at_reindex_sub:
  "set cols \<subseteq> set new \<Longrightarrow> cell_at new (reindex cols new r) c = cell_at cols r c"
  using cell_at_outside [of c cols r] by (cases "c \<in> set cols") (auto simp: cell_at_reindex)

lemma length_rows_concat_frames:
  "length (rows (concat_frames frames)) = sum_list (map (\<lambda>f. length (rows f)) frames)"
  by (simp add: concat_frames_def Let_def length_concat comp_def)

lemma combine_loop_all_loaded:
  "map (load_country_df fs rd) cs = map Inr fl \<Longrightarrow>
   combine_loop fs rd cs frames ws = (ws, Inr (frames @ fl))"
proof (induction cs arbitrary: fl frames)
  case Nil
  then show ?case by simp
next
  case (Cons c cs)
  then obtain f fl' where fl: "fl = f # fl'" by (cases fl) auto
  with Cons.prems have h: "load_country_df fs rd c = Inr f"
    and t: "map (load_country_df fs rd) cs = map Inr fl'" by auto
  show ?case using Cons.IH [OF t, of "frames @ [f]"] h fl by simp
qed

lemma combine_loop_no_read_error:
  assumes "\<forall>k\<in>set cs. \<forall>txt. fs (country_path k) = Some txt \<longrightarrow> (\<exists>f. rd txt = Inr f)"
  shows "combine_loop fs rd cs frames ws =
     (ws @ map (\<lambda>k. warning_text k (''Data file not found: '' @ country_path k))
             (filter (\<lambda>k. fs (country_path k) = None) cs),
      Inr (frames @ map (\<lambda>k. projr (load_country_df fs rd k))
             (filter (\<lambda>k. fs (country_path k) \<noteq> None) cs)))"
  using assms
proof (induction cs arbitrary: frames ws)
  case Nil
  then show ?case by simp
next
  case (Cons c cs)
  then have rest: "\<forall>k\<in>set cs. \<forall>txt. fs (country_path k) = Some txt \<longrightarrow> (\<exists>f. rd txt = Inr f)"
    by simp
  show ?case
  proof (cases "fs (country_path c)")
    case None
    then show ?thesis using Cons.IH [OF rest] by (simp add: load_missing)
  next
    case (Some content)
    with Cons.prems obtain f where f: "rd content = Inr f" by auto
    show ?thesis using Cons.IH [OF rest] Some f load_present [of fs c content rd f] by simp
  qed
qed

lemma combine_loop_read_error:
  assumes "\<forall>k\<in>set pre. \<forall>txt. fs (country_path k) = Some txt \<longrightarrow> (\<exists>f. rd txt = Inr f)"
    and "fs (country_path k) = Some content" and "rd content = Inl e"
    and "\<forall>m. e \<noteq> FileNotFoundError m"
  shows "combine_loop fs rd (pre @ k # post) frames ws =
     (ws @ map (\<lambda>k. warning_text k (''Data file not found: '' @ country_path k))
             (filter (\<lambda>k. fs (country_path k) = None) pre),
      Inl e)"
  using assms(1)
proof (induction pre arbitrary: frames ws)
  case Nil
  show ?case using assms(2-4) load_read_error [of fs k content rd e]
    by (simp split: error.splits)
next
  case (Cons c cs)
  then have rest: "\<forall>k\<in>set cs. \<forall>txt. fs (country_path k) = Some txt \<longrightarrow> (\<exists>f. rd txt = Inr f)"
    by simp
  show ?case
  proof (cases "fs (country_path c)")
    case None
    then show ?thesis using Cons.IH [OF rest] by (simp add: load_missing)
  next
    case (Some content)
    with Cons.prems obtain f where f: "rd content = Inr f" by auto
    show ?thesis using Cons.IH [OF rest] Some f load_present [of fs c content rd f] by simp
  qed
qed

section \<open>The example directory, evaluated\<close>

lemmas ex_load_defs = ex_fs_def ex_read_csv_def country_path_plain load_country_df_def

lemmas ex_path_defs = ex_fs_def country_path_plain

lemmas ex_frame_defs = concat_frames_def union_cols_def reindex_def cell_at_def
  assign_new_column_def ex_benin_def ex_togo_def ex_header_def ex_blank_def ex_table_def

lemma ex_load_benin:
  "load_country_df ex_fs ex_read_csv ''benin'' =
     Inr (assign_new_column ex_benin ''country'' (Str ''benin''))"
  by (simp add: ex_load_defs ex_benin_def)

lemma ex_load_togo: "load_country_df ex_fs ex_read_csv ''togo'' = Inr ex_togo"
  by (simp add: ex_load_defs ex_togo_def)

lemma ex_load_header:
  "load_country_df ex_fs ex_read_csv ''header'' =
     Inr (assign_new_column ex_header ''country'' (Str ''header''))"
  by (simp add: ex_load_defs ex_header_def)

lemma ex_load_blank: "load_country_df ex_fs ex_read_csv ''blank'' = Inr ex_blank"
  by (simp add: ex_load_defs ex_blank_def)

lemma ex_load_broken:
  "load_country_df ex_fs ex_read_csv ''broken'' = Inl (ParserError ''Error tokenizing data'')"
  by (simp add: ex_load_defs)

lemma ex_load_mali:
  "load_country_df ex_fs ex_read_csv ''mali'' =
     Inl (FileNotFoundError ''Data file not found: data/mali_clean.csv'')"
  by (simp add: ex_load_defs)

section \<open>Properties of \<^verbatim>\<open>combine_countries\<close>\<close>

text \<open>
  Claim C1. When the list of keys is not empty and every key loads (its file exists and
  parses), \<^verbatim>\<open>combine_countries\<close> shows no warning and returns a table that has as many rows
  as the loaded regions have together; its rows are the regions' rows, region after
  region in the order of the keys and in their order within the region, each re-indexed
  to the table's columns, and a re-indexed row holds under every column label the cell
  the region's row holds there.
\<close>

theorem combine_all_present:
  assumes "country_keys \<noteq> []"
    and "map (load_country_df fs read_csv) country_keys = map Inr frames"
  shows "\<exists>t. combine_countries fs read_csv country_keys = ([], Inr t)
     \<and> length (rows t) = sum_list (map (\<lambda>f. length (rows f)) frames)
     \<and> rows t = concat (map (\<lambda>f. map (reindex (columns f) (columns t)) (rows f)) frames)
     \<and> (\<forall>f \<in> set frames. \<forall>r \<in> set (rows f). \<forall>c.
           cell_at (columns t) (reindex (columns f) (columns t) r) c = cell_at (columns f) r c)"
proof -
  from assms have ne: "frames \<noteq> []" by (cases frames) auto
  have loop: "combine_loop fs read_csv country_keys [] [] = ([], Inr frames)"
    using combine_loop_all_loaded [OF assms(2), of "[]" "[]"] by simp
  let ?t = "concat_frames frames"
  have res: "combine_countries fs read_csv country_keys = ([], Inr ?t)"
    using loop ne by (simp add: combine_countries_def)
  have len: "length (rows ?t) = sum_list (map (\<lambda>f. length (rows f)) frames)"
    by (rule length_rows_concat_frames)
  have rws: "rows ?t = concat (map (\<lambda>f. map (reindex (columns f) (columns ?t)) (rows f)) frames)"
    by (simp add: concat_frames_def Let_def)
  have sub: "set (columns f) \<subseteq> set (columns ?t)" if "f \<in> set frames" for f
    using that by (auto simp: concat_frames_def Let_def set_union_cols)
  have cells: "\<forall>f \<in> set frames. \<forall>r \<in> set (rows f). \<forall>c.
      cell_at (columns ?t) (reindex (columns f) (columns ?t) r) c = cell_at (columns f) r c"
    using sub by (simp add: cell_at_reindex_sub)
  from res len rws cells show ?thesis by blast
qed

theorem combine_all_present_witness:
  "[''benin'', ''togo''] \<noteq> []
   \<and> map (load_country_df ex_fs ex_read_csv) [''benin'', ''togo''] =
       map Inr [assign_new_column ex_benin ''country'' (Str ''benin''), ex_togo]
   \<and> combine_countries ex_fs ex_read_csv [''benin'', ''togo''] = ([], Inr ex_table)
   \<and> length (rows ex_table) = 2 + 1"
proof -
  have ne: "[''benin'', ''togo''] \<noteq> []" by simp
  have ld: "map (load_country_df ex_fs ex_read_csv) [''benin'', ''togo''] =
       map Inr [assign_new_column ex_benin ''country'' (Str ''benin''), ex_togo]"
    by (simp add: ex_load_benin ex_load_togo)
  from combine_all_present [OF ne ld] obtain t where
    t: "combine_countries ex_fs ex_read_csv [''benin'', ''togo''] = ([], Inr t)"
    and rw: "rows t = concat (map (\<lambda>f. map (reindex (columns f) (columns t)) (rows f))
        [assign_new_column ex_benin ''country'' (Str ''benin''), ex_togo])"
    and len: "length (rows t) = sum_list (map (\<lambda>f. length (rows f))
        [assign_new_column ex_benin ''country'' (Str ''benin''), ex_togo])"
    by blast
  have "combine_countries ex_fs ex_read_csv [''benin'', ''togo''] = ([], Inr ex_table)"
    by (simp add: combine_countries_def ex_load_benin ex_load_togo ex_frame_defs)
  with t have "t = ex_table" by simp
  with len have "length (rows ex_table) = 2 + 1"
    by (simp add: assign_new_column_def ex_benin_def ex_togo_def)
  with ne ld t \<open>t = ex_table\<close> show ?thesis by simp
qed

text \<open>
  Claim C2, as the code has it. What makes \<^verbatim>\<open>combine_countries\<close> fail with
  \<^verbatim>\<open>ValueError('No valid country data found')\<close> is that no file was loaded, not that no
  row was. When the file of every key is missing, the call shows one warning per key and
  fails. When at least one file is there and all files that are there parse, it does not
  fail: it returns the concatenation of the loaded frames, which has as many rows as the
  files that are there have together, and so no row exactly when none of these files has
  one.
\<close>

theorem combine_fails_when_no_file_found:
  "((\<forall>k\<in>set keys. fs (country_path k) = None) \<longrightarrow>
      combine_countries fs read_csv keys =
        (map (\<lambda>k. warning_text k (''Data file not found: '' @ country_path k)) keys,
         Inl (ValueError ''No valid country data found'')))
   \<and> ((\<forall>k\<in>set keys. \<forall>txt. fs (country_path k) = Some txt \<longrightarrow> (\<exists>f. read_csv txt = Inr f))
        \<and> (\<exists>k\<in>set keys. fs (country_path k) \<noteq> None) \<longrightarrow>
      (let present = filter (\<lambda>k. fs (country_path k) \<noteq> None) keys;
           t = concat_frames (map (\<lambda>k. projr (load_country_df fs read_csv k)) present)
       in snd (combine_countries fs read_csv keys) = Inr t
          \<and> length (rows t) =
              sum_list (map (\<lambda>k. length (rows (projr (read_csv (the (fs (country_path k)))))))
                present)
          \<and> (rows t = [] \<longleftrightarrow>
               (\<forall>k\<in>set present. rows (projr (read_csv (the (fs (country_path k))))) = []))))"
proof (intro conjI impI)
  assume missing: "\<forall>k\<in>set keys. fs (country_path k) = None"
  then have ok: "\<forall>k\<in>set keys. \<forall>txt. fs (country_path k) = Some txt \<longrightarrow>
      (\<exists>f. read_csv txt = Inr f)"
    by simp
  from missing have all: "filter (\<lambda>k. fs (country_path k) = None) keys = keys"
    by (simp add: filter_id_conv)
  from missing have none: "filter (\<lambda>k. fs (country_path k) \<noteq> None) keys = []"
    by (simp add: filter_empty_conv)
  show "combine_countries fs read_csv keys =
        (map (\<lambda>k. warning_text k (''Data file not found: '' @ country_path k)) keys,
         Inl (ValueError ''No valid country data found''))"
    using combine_loop_no_read_error [OF ok, of "[]" "[]", unfolded all none]
    by (simp add: combine_countries_def)
next
  assume h: "(\<forall>k\<in>set keys. \<forall>txt. fs (country_path k) = Some txt \<longrightarrow> (\<exists>f. read_csv txt = Inr f))
        \<and> (\<exists>k\<in>set keys. fs (country_path k) \<noteq> None)"
  then have ok: "\<forall>k\<in>set keys. \<forall>txt. fs (country_path k) = Some txt \<longrightarrow>
      (\<exists>f. read_csv txt = Inr f)"
    by blast
  define present where "present = filter (\<lambda>k. fs (country_path k) \<noteq> None) keys"
  define loaded where "loaded = map (\<lambda>k. projr (load_country_df fs read_csv k)) present"
  define parsed where "parsed = (\<lambda>k. projr (read_csv (the (fs (country_path k)))))"
  from h have some: "present \<noteq> []"
    by (simp add: present_def filter_empty_conv)
  then have ne: "loaded \<noteq> []" by (simp add: loaded_def)
  have loop: "combine_loop fs read_csv keys [] [] =
      (map (\<lambda>k. warning_text k (''Data file not found: '' @ country_path k))
         (filter (\<lambda>k. fs (country_path k) = None) keys), Inr loaded)"
    using combine_loop_no_read_error [OF ok, of "[]" "[]"]
    by (simp only: loaded_def present_def append_Nil)
  have res: "snd (combine_countries fs read_csv keys) = Inr (concat_frames loaded)"
    using ne by (simp add: combine_countries_def loop)
  have same: "length (rows (projr (load_country_df fs read_csv k))) = length (rows (parsed k))"
    if "k \<in> set present" for k
  proof -
    from that have k: "k \<in> set keys" and "fs (country_path k) \<noteq> None"
      by (simp_all add: present_def)
    then obtain content where c: "fs (country_path k) = Some content" by blast
    with ok k obtain f where f: "read_csv content = Inr f" by blast
    from load_present [of fs k content read_csv f] c f
    show ?thesis by (simp add: parsed_def assign_new_column_def)
  qed
  have len: "length (rows (concat_frames loaded)) = sum_list (map (\<lambda>k. length (rows (parsed k))) present)"
    unfolding length_rows_concat_frames loaded_def
    using same by (simp add: comp_def cong: map_cong)
  have empty: "rows (concat_frames loaded) = [] \<longleftrightarrow> (\<forall>k\<in>set present. rows (parsed k) = [])"
  proof -
    have "rows (concat_frames loaded) = [] \<longleftrightarrow> length (rows (concat_frames loaded)) = 0"
      by simp
    also have "\<dots> \<longleftrightarrow> (\<forall>k\<in>set present. length (rows (parsed k)) = 0)"
      unfolding len by (simp add: sum_list_eq_0_iff)
    finally show ?thesis by simp
  qed
  from res len empty
  show "let present = filter (\<lambda>k. fs (country_path k) \<noteq> None) keys;
           t = concat_frames (map (\<lambda>k. projr (load_country_df fs read_csv k)) present)
       in snd (combine_countries fs read_csv keys) = Inr t
          \<and> length (rows t) =
              sum_list (map (\<lambda>k. length (rows (projr (read_csv (the (fs (country_path k)))))))
                present)
          \<and> (rows t = [] \<longleftrightarrow>
               (\<forall>k\<in>set present. rows (projr (read_csv (the (fs (country_path k))))) = []))"
    unfolding Let_def present_def [symmetric] loaded_def [symmetric]
    by (simp add: parsed_def)
qed

theorem combine_fails_when_no_file_found_witness:
  "ex_fs (country_path ''mali'') = None \<and> ex_fs (country_path ''niger'') = None
   \<and> combine_countries ex_fs ex_read_csv [''mali'', ''niger''] =
       ([''Data not found for mali: Data file not found: data/mali_clean.csv'',
         ''Data not found for niger: Data file not found: data/niger_clean.csv''],
        Inl (ValueError ''No valid country data found''))
   \<and> ex_fs (country_path ''header'') \<noteq> None
   \<and> snd (combine_countries ex_fs ex_read_csv [''mali'', ''header'']) =
       Inr \<lparr>columns = [''Timestamp'', ''GHI'', ''country''], rows = []\<rparr>
   \<and> snd (combine_countries ex_fs ex_read_csv [''mali'', ''benin'', ''header'']) =
       Inr \<lparr>columns = [''Timestamp'', ''GHI'', ''country''],
            rows = [[Num 1, Num 10, Str ''benin''], [Num 2, Num 20, Str ''benin'']]\<rparr>"
proof -
  have m: "ex_fs (country_path ''mali'') = None" and n: "ex_fs (country_path ''niger'') = None"
    and h: "ex_fs (country_path ''header'') \<noteq> None"
    by (simp_all add: ex_path_defs)
  from m n have missing: "\<forall>k\<in>set [''mali'', ''niger'']. ex_fs (country_path k) = None"
    by simp
  from combine_fails_when_no_file_found [of "[''mali'', ''niger'']" ex_fs ex_read_csv] missing
  have "combine_countries ex_fs ex_read_csv [''mali'', ''niger''] =
        (map (\<lambda>k. warning_text k (''Data file not found: '' @ country_path k))
           [''mali'', ''niger''],
         Inl (ValueError ''No valid country data found''))"
    by blast
  then have a: "combine_countries ex_fs ex_read_csv [''mali'', ''niger''] =
       ([''Data not found for mali: Data file not found: data/mali_clean.csv'',
         ''Data not found for niger: Data file not found: data/niger_clean.csv''],
        Inl (ValueError ''No valid country data found''))"
    by (simp add: warning_text_def country_path_plain)
  have ok: "(\<forall>k\<in>set [''mali'', ''header'']. \<forall>txt. ex_fs (country_path k) = Some txt \<longrightarrow>
        (\<exists>f. ex_read_csv txt = Inr f))
      \<and> (\<exists>k\<in>set [''mali'', ''header'']. ex_fs (country_path k) \<noteq> None)"
    by (simp add: ex_path_defs ex_read_csv_def)
  have p: "filter (\<lambda>k. ex_fs (country_path k) \<noteq> None) [''mali'', ''header''] = [''header'']"
    by (simp add: ex_path_defs)
  from combine_fails_when_no_file_found
         [of "[''mali'', ''header'']" ex_fs ex_read_csv, THEN conjunct2, rule_format, OF ok]
  have "snd (combine_countries ex_fs ex_read_csv [''mali'', ''header'']) =
      Inr (concat_frames (map (\<lambda>k. projr (load_country_df ex_fs ex_read_csv k)) [''header'']))"
    unfolding Let_def p by (rule conjunct1)
  then have b: "snd (combine_countries ex_fs ex_read_csv [''mali'', ''header'']) =
       Inr \<lparr>columns = [''Timestamp'', ''GHI'', ''country''], rows = []\<rparr>"
    by (simp add: ex_load_header ex_frame_defs)
  have ok': "(\<forall>k\<in>set [''mali'', ''benin'', ''header'']. \<forall>txt.
        ex_fs (country_path k) = Some txt \<longrightarrow> (\<exists>f. ex_read_csv txt = Inr f))
      \<and> (\<exists>k\<in>set [''mali'', ''benin'', ''header'']. ex_fs (country_path k) \<noteq> None)"
    by (simp add: ex_path_defs ex_read_csv_def)
  have p': "filter (\<lambda>k. ex_fs (country_path k) \<noteq> None) [''mali'', ''benin'', ''header''] =
      [''benin'', ''header'']"
    by (simp add: ex_path_defs)
  from combine_fails_when_no_file_found
         [of "[''mali'', ''benin'', ''header'']" ex_fs ex_read_csv, THEN conjunct2, rule_format,
          OF ok']
  have "snd (combine_countries ex_fs ex_read_csv [''mali'', ''benin'', ''header'']) =
      Inr (concat_frames (map (\<lambda>k. projr (load_country_df ex_fs ex_read_csv k))
        [''benin'', ''header'']))"
    unfolding Let_def p' by (rule conjunct1)
  then have c: "snd (combine_countries ex_fs ex_read_csv [''mali'', ''benin'', ''header'']) =
       Inr \<lparr>columns = [''Timestamp'', ''GHI'', ''country''],
            rows = [[Num 1, Num 10, Str ''benin''], [Num 2, Num 20, Str ''benin'']]\<rparr>"
    by (simp add: ex_load_benin ex_load_header ex_frame_defs)
  from m n a h b c show ?thesis by simp
qed

text \<open>
  A file that holds only its header line is loaded with zero rows, and the call returns
  the empty table instead of failing.
\<close>

theorem combine_empty_table_counterexample:
  "combine_countries ex_fs ex_read_csv [''header''] =
     ([], Inr \<lparr>columns = [''Timestamp'', ''GHI'', ''country''], rows = []\<rparr>)
   \<and> [''header''] \<noteq> []"
  by (simp add: combine_countries_def ex_load_header ex_frame_defs)

text \<open>
  Claim C3. When every file that is there parses, \<^verbatim>\<open>combine_countries\<close> shows exactly one
  warning for each key whose file is missing, in the order of the keys, and goes on: the
  result is built from the files of the other keys. When the file of some key is there
  and reading it raises anything but \<^verbatim>\<open>FileNotFoundError\<close> (all files before it being
  missing or parsing), the call ends with that exception, after the warnings of the
  missing keys before it; no key after it is looked at.
\<close>

theorem combine_skips_missing_propagates_read_errors:
  "((\<forall>k\<in>set keys. \<forall>txt. fs (country_path k) = Some txt \<longrightarrow> (\<exists>f. read_csv txt = Inr f)) \<longrightarrow>
      fst (combine_countries fs read_csv keys) =
        map (\<lambda>k. warning_text k (''Data file not found: '' @ country_path k))
          (filter (\<lambda>k. fs (country_path k) = None) keys)
      \<and> snd (combine_countries fs read_csv keys) =
          (let loaded = map (\<lambda>k. projr (load_country_df fs read_csv k))
                          (filter (\<lambda>k. fs (country_path k) \<noteq> None) keys)
           in if loaded = [] then Inl (ValueError ''No valid country data found'')
              else Inr (concat_frames loaded)))
   \<and> (\<forall>pre k post txt e.
        keys = pre @ k # post
        \<and> (\<forall>k'\<in>set pre. \<forall>txt. fs (country_path k') = Some txt \<longrightarrow> (\<exists>f. read_csv txt = Inr f))
        \<and> fs (country_path k) = Some txt \<and> read_csv txt = Inl e
        \<and> (\<forall>m. e \<noteq> FileNotFoundError m) \<longrightarrow>
        combine_countries fs read_csv keys =
          (map (\<lambda>k. warning_text k (''Data file not found: '' @ country_path k))
             (filter (\<lambda>k. fs (country_path k) = None) pre),
           Inl e))"
proof (intro conjI impI allI)
  assume ok: "\<forall>k\<in>set keys. \<forall>txt. fs (country_path k) = Some txt \<longrightarrow> (\<exists>f. read_csv txt = Inr f)"
  note loop = combine_loop_no_read_error [OF ok, of "[]" "[]"]
  show "fst (combine_countries fs read_csv keys) =
        map (\<lambda>k. warning_text k (''Data file not found: '' @ country_path k))
          (filter (\<lambda>k. fs (country_path k) = None) keys)"
    by (simp add: combine_countries_def loop)
  show "snd (combine_countries fs read_csv keys) =
          (let loaded = map (\<lambda>k. projr (load_country_df fs read_csv k))
                          (filter (\<lambda>k. fs (country_path k) \<noteq> None) keys)
           in if loaded = [] then Inl (ValueError ''No valid country data found'')
              else Inr (concat_frames loaded))"
    by (simp add: combine_countries_def loop Let_def)
next
  fix pre k post content e
  assume h: "keys = pre @ k # post
        \<and> (\<forall>k'\<in>set pre. \<forall>txt. fs (country_path k') = Some txt \<longrightarrow> (\<exists>f. read_csv txt = Inr f))
        \<and> fs (country_path k) = Some content \<and> read_csv content = Inl e
        \<and> (\<forall>m. e \<noteq> FileNotFoundError m)"
  then have loop: "combine_loop fs read_csv keys [] [] =
      (map (\<lambda>k. warning_text k (''Data file not found: '' @ country_path k))
             (filter (\<lambda>k. fs (country_path k) = None) pre), Inl e)"
    using combine_loop_read_error [of pre fs read_csv k content e post "[]" "[]"] by simp
  show "combine_countries fs read_csv keys =
          (map (\<lambda>k. warning_text k (''Data file not found: '' @ country_path k))
             (filter (\<lambda>k. fs (country_path k) = None) pre),
           Inl e)"
    by (simp add: combine_countries_def loop)
qed

theorem combine_skips_missing_propagates_read_errors_witness:
  "fst (combine_countries ex_fs ex_read_csv [''mali'', ''benin'', ''niger'', ''togo'']) =
     [''Data not found for mali: Data file not found: data/mali_clean.csv'',
      ''Data not found for niger: Data file not found: data/niger_clean.csv'']
   \<and> snd (combine_countries ex_fs ex_read_csv [''mali'', ''benin'', ''niger'', ''togo'']) =
       Inr ex_table
   \<and> combine_countries ex_fs ex_read_csv [''mali'', ''broken'', ''benin''] =
       ([''Data not found for mali: Data file not found: data/mali_clean.csv''],
        Inl (ParserError ''Error tokenizing data''))"
proof -
  let ?ks = "[''mali'', ''benin'', ''niger'', ''togo'']"
  have ok: "\<forall>k\<in>set ?ks. \<forall>txt. ex_fs (country_path k) = Some txt \<longrightarrow>
      (\<exists>f. ex_read_csv txt = Inr f)"
    by (simp add: ex_path_defs ex_read_csv_def)
  from combine_skips_missing_propagates_read_errors [of ?ks ex_fs ex_read_csv] ok
  have a: "fst (combine_countries ex_fs ex_read_csv ?ks) =
        map (\<lambda>k. warning_text k (''Data file not found: '' @ country_path k))
          (filter (\<lambda>k. ex_fs (country_path k) = None) ?ks)"
    and b: "snd (combine_countries ex_fs ex_read_csv ?ks) =
          (let loaded = map (\<lambda>k. projr (load_country_df ex_fs ex_read_csv k))
                          (filter (\<lambda>k. ex_fs (country_path k) \<noteq> None) ?ks)
           in if loaded = [] then Inl (ValueError ''No valid country data found'')
              else Inr (concat_frames loaded))"
    by blast+
  have a': "fst (combine_countries ex_fs ex_read_csv ?ks) =
     [''Data not found for mali: Data file not found: data/mali_clean.csv'',
      ''Data not found for niger: Data file not found: data/niger_clean.csv'']"
    unfolding a by (simp add: ex_path_defs warning_text_def)
  have flt: "filter (\<lambda>k. ex_fs (country_path k) \<noteq> None) ?ks = [''benin'', ''togo'']"
    by (simp add: ex_path_defs)
  have b': "snd (combine_countries ex_fs ex_read_csv ?ks) = Inr ex_table"
    unfolding b flt by (simp add: ex_load_benin ex_load_togo ex_frame_defs)
  have pre: "\<forall>k'\<in>set [''mali'']. \<forall>txt. ex_fs (country_path k') = Some txt \<longrightarrow>
      (\<exists>f. ex_read_csv txt = Inr f)"
    by (simp add: ex_path_defs)
  have brk: "ex_fs (country_path ''broken'') = Some ''broken''"
    by (simp add: ex_path_defs)
  have rd: "ex_read_csv ''broken'' = Inl (ParserError ''Error tokenizing data'')"
    by (simp add: ex_read_csv_def)
  have nf: "\<forall>m. ParserError ''Error tokenizing data'' \<noteq> FileNotFoundError m" by simp
  have split: "[''mali'', ''broken'', ''benin''] = [''mali''] @ ''broken'' # [''benin'']" by simp
  from combine_skips_missing_propagates_read_errors
         [of "[''mali'', ''broken'', ''benin'']" ex_fs ex_read_csv]
  have "\<forall>pre k post txt e.
        [''mali'', ''broken'', ''benin''] = pre @ k # post
        \<and> (\<forall>k'\<in>set pre. \<forall>txt. ex_fs (country_path k') = Some txt \<longrightarrow> (\<exists>f. ex_read_csv txt = Inr f))
        \<and> ex_fs (country_path k) = Some txt \<and> ex_read_csv txt = Inl e
        \<and> (\<forall>m. e \<noteq> FileNotFoundError m) \<longrightarrow>
        combine_countries ex_fs ex_read_csv [''mali'', ''broken'', ''benin''] =
          (map (\<lambda>k. warning_text k (''Data file not found: '' @ country_path k))
             (filter (\<lambda>k. ex_fs (country_path k) = None) pre),
           Inl e)"
    by (rule conjunct2)
  from this [rule_format, of "[''mali'']" "''broken''" "[''benin'']" "''broken''"
      "ParserError ''Error tokenizing data''"] split pre brk rd nf
  have c: "combine_countries ex_fs ex_read_csv [''mali'', ''broken'', ''benin''] =
          (map (\<lambda>k. warning_text k (''Data file not found: '' @ country_path k))
             (filter (\<lambda>k. ex_fs (country_path k) = None) [''mali'']),
           Inl (ParserError ''Error tokenizing data''))"
    by blast
  have c': "combine_countries ex_fs ex_read_csv [''mali'', ''broken'', ''benin''] =
       ([''Data not found for mali: Data file not found: data/mali_clean.csv''],
        Inl (ParserError ''Error tokenizing data''))"
    unfolding c by (simp add: ex_path_defs warning_text_def)
  from a' b' c' show ?thesis by simp
qed

lemma cell_at_append_new:
  assumes "length r = length cols" and "c \<notin> set cols"
  shows "cell_at (cols @ [c]) (r @ [v]) c = v"
proof -
  from assms(2) have "c \<notin> fst ` set (zip cols r)" by (auto dest: set_zip_leftD)
  then have none: "map_of (zip cols r) c = None" by (simp add: map_of_eq_None_iff)
  have "map_of (zip (cols @ [c]) (r @ [v])) c = Some v"
    using assms(1) by (simp add: map_add_def none)
  then show ?thesis by (simp only: cell_at_def option.case)
qed

lemma cell_at_append_old:
  assumes "length r = length cols" and "c \<in> set cols"
  shows "cell_at (cols @ [c']) (r @ [v]) c = cell_at cols r c"
proof -
  from assms have "c \<in> fst ` set (zip cols r)"
    by (metis map_fst_zip set_map)
  then obtain x where "map_of (zip cols r) c = Some x"
    by (metis domIff dom_map_of_conv_image_fst not_Some_eq)
  with assms(1) show ?thesis by (simp add: cell_at_def map_add_def)
qed

lemma combine_loop_frames_exact:
  "combine_loop fs rd cs frames ws = (ws', Inr frames') \<Longrightarrow>
   frames' = frames @ map (\<lambda>k. projr (load_country_df fs rd k))
                        (filter (\<lambda>k. \<not> isl (load_country_df fs rd k)) cs)"
proof (induction cs arbitrary: frames ws)
  case Nil
  then show ?case by simp
next
  case (Cons c cs)
  show ?case
  proof (cases "load_country_df fs rd c")
    case (Inr df)
    with Cons.prems have "combine_loop fs rd cs (frames @ [df]) ws = (ws', Inr frames')"
      by simp
    from Cons.IH [OF this] Inr show ?thesis by simp
  next
    case (Inl e)
    show ?thesis
    proof (cases e)
      case (FileNotFoundError m)
      with Inl Cons.prems have
        "combine_loop fs rd cs frames (ws @ [warning_text c m]) = (ws', Inr frames')"
        by simp
      from Cons.IH [OF this] Inl show ?thesis by simp
    qed (use Inl Cons.prems in auto)
  qed
qed

text \<open>
  Claim C4, as the code has it. \<^verbatim>\<open>load_country_df\<close> writes the requested key into the
  \<^verbatim>\<open>country\<close> column only when the file has no such column; a file that has one keeps
  its own cells, whatever they hold. A table returned by \<^verbatim>\<open>combine_countries\<close> is the
  concatenation of the frames of the keys that loaded: block after block in key order,
  the block of a key having one row for each row of the key's file, in file order. Such
  a row holds the cells of the file's row under the file's columns, and in the
  \<^verbatim>\<open>country\<close> column the requested key when the file lacks that column (every such row is
  stamped) and the file's own cell otherwise.
\<close>

theorem combine_country_cell:
  assumes "combine_countries fs read_csv keys = (ws, Inr t)"
    and "\<forall>k\<in>set keys. \<forall>txt f. fs (country_path k) = Some txt \<and> read_csv txt = Inr f
           \<longrightarrow> wf_frame f"
  shows "let frame_of = (\<lambda>k. projr (load_country_df fs read_csv k));
             loaded = filter (\<lambda>k. \<not> isl (load_country_df fs read_csv k)) keys;
             block = (\<lambda>k. map (reindex (columns (frame_of k)) (columns t)) (rows (frame_of k)))
         in t = concat_frames (map frame_of loaded)
            \<and> rows t = concat (map block loaded)
            \<and> (\<forall>k\<in>set loaded. \<exists>txt f.
                  fs (country_path k) = Some txt \<and> read_csv txt = Inr f
                  \<and> length (block k) = length (rows f)
                  \<and> (\<forall>i<length (rows f).
                        cell_at (columns t) (block k ! i) ''country'' =
                          (if ''country'' \<in> set (columns f)
                           then cell_at (columns f) (rows f ! i) ''country'' else Str k)
                        \<and> (\<forall>c\<in>set (columns f).
                              cell_at (columns t) (block k ! i) c =
                                cell_at (columns f) (rows f ! i) c)))"
proof -
  define frame_of where "frame_of = (\<lambda>k. projr (load_country_df fs read_csv k))"
  define loaded where "loaded = filter (\<lambda>k. \<not> isl (load_country_df fs read_csv k)) keys"
  define block where
    "block = (\<lambda>k. map (reindex (columns (frame_of k)) (columns t)) (rows (frame_of k)))"
  from assms(1) obtain frames where
    loop: "combine_loop fs read_csv keys [] [] = (ws, Inr frames)"
    and t: "t = concat_frames frames"
    by (auto simp: combine_countries_def split: prod.splits sum.splits if_splits)
  from combine_loop_frames_exact [OF loop] have frames: "frames = map frame_of loaded"
    by (simp add: frame_of_def loaded_def)
  have t_eq: "t = concat_frames (map frame_of loaded)" using t frames by simp
  have rows_eq: "rows t = concat (map block loaded)"
    unfolding block_def by (subst t_eq) (simp add: concat_frames_def Let_def t_eq comp_def)
  have per_key: "\<exists>txt f.
        fs (country_path k) = Some txt \<and> read_csv txt = Inr f
        \<and> length (block k) = length (rows f)
        \<and> (\<forall>i<length (rows f).
              cell_at (columns t) (block k ! i) ''country'' =
                (if ''country'' \<in> set (columns f)
                 then cell_at (columns f) (rows f ! i) ''country'' else Str k)
              \<and> (\<forall>c\<in>set (columns f).
                    cell_at (columns t) (block k ! i) c = cell_at (columns f) (rows f ! i) c))"
    if k: "k \<in> set loaded" for k
  proof -
    from k have kk: "k \<in> set keys" and "\<not> isl (load_country_df fs read_csv k)"
      by (simp_all add: loaded_def)
    then have ld: "load_country_df fs read_csv k = Inr (frame_of k)"
      by (cases "load_country_df fs read_csv k") (simp_all add: frame_of_def)
    from ld obtain content f where c: "fs (country_path k) = Some content"
      and f: "read_csv content = Inr f"
      and fk: "frame_of k = (if ''country'' \<notin> set (columns f)
                      then assign_new_column f ''country'' (Str k) else f)"
      by (rule load_Inr_cases)
    from assms(2) kk c f have wf: "wf_frame f" by blast
    from k have "frame_of k \<in> set (map frame_of loaded)" by simp
    then have sub: "set (columns (frame_of k)) \<subseteq> set (columns t)"
      by (subst t_eq) (auto simp: concat_frames_def Let_def set_union_cols)
    have len: "length (block k) = length (rows f)"
      by (simp add: block_def fk assign_new_column_def)
    have cells: "cell_at (columns t) (block k ! i) ''country'' =
                (if ''country'' \<in> set (columns f)
                 then cell_at (columns f) (rows f ! i) ''country'' else Str k)
              \<and> (\<forall>c\<in>set (columns f).
                    cell_at (columns t) (block k ! i) c = cell_at (columns f) (rows f ! i) c)"
      if i: "i < length (rows f)" for i
    proof -
      from i len have i': "i < length (rows (frame_of k))" by (simp add: block_def)
      then have bi: "block k ! i =
          reindex (columns (frame_of k)) (columns t) (rows (frame_of k) ! i)"
        by (simp add: block_def)
      have through: "cell_at (columns t) (block k ! i) c =
          cell_at (columns (frame_of k)) (rows (frame_of k) ! i) c" for c
        unfolding bi by (rule cell_at_reindex_sub [OF sub])
      from wf i have wlen: "length (rows f ! i) = length (columns f)"
        by (simp add: wf_frame_def list_all_iff)
      show ?thesis
      proof (cases "''country'' \<in> set (columns f)")
        case True
        with fk have "frame_of k = f" by simp
        with through True show ?thesis by simp
      next
        case False
        with fk have eq: "frame_of k = assign_new_column f ''country'' (Str k)" by simp
        have cols: "columns (frame_of k) = columns f @ [''country'']"
          and row: "rows (frame_of k) ! i = rows f ! i @ [Str k]"
          using i by (simp_all add: eq assign_new_column_def)
        have "cell_at (columns t) (block k ! i) ''country'' = Str k"
          unfolding through cols row by (rule cell_at_append_new [OF wlen False])
        moreover have "cell_at (columns t) (block k ! i) c = cell_at (columns f) (rows f ! i) c"
          if "c \<in> set (columns f)" for c
          unfolding through cols row by (rule cell_at_append_old [OF wlen that])
        ultimately show ?thesis using False by simp
      qed
    qed
    from c f len cells show ?thesis by blast
  qed
  from t_eq rows_eq per_key
  show ?thesis
    unfolding Let_def block_def frame_of_def loaded_def
    by blast
qed

theorem combine_country_cell_witness:
  "combine_countries ex_fs ex_read_csv [''benin'', ''togo''] = ([], Inr ex_table)
   \<and> wf_frame ex_benin \<and> wf_frame ex_togo
   \<and> filter (\<lambda>k. \<not> isl (load_country_df ex_fs ex_read_csv k)) [''benin'', ''togo''] =
       [''benin'', ''togo'']
   \<and> rows ex_table =
       map (reindex [''Timestamp'', ''GHI'', ''country''] (columns ex_table))
         [[Num 1, Num 10, Str ''benin''], [Num 2, Num 20, Str ''benin'']]
       @ map (reindex [''Timestamp'', ''GHI'', ''country''] (columns ex_table))
           [[Num 3, Num 30, Str ''togo'']]
   \<and> map (\<lambda>r. cell_at (columns ex_table) r ''country'') (rows ex_table) =
       [Str ''benin'', Str ''benin'', Str ''togo'']"
proof -
  have c: "combine_countries ex_fs ex_read_csv [''benin'', ''togo''] = ([], Inr ex_table)"
    by (simp add: combine_countries_def ex_load_benin ex_load_togo ex_frame_defs)
  have wb: "wf_frame ex_benin" and wt: "wf_frame ex_togo"
    by (simp_all add: wf_frame_def ex_benin_def ex_togo_def)
  have wf: "\<forall>k\<in>set [''benin'', ''togo'']. \<forall>txt f.
      ex_fs (country_path k) = Some txt \<and> ex_read_csv txt = Inr f \<longrightarrow> wf_frame f"
    using wb wt by (auto simp: ex_path_defs ex_read_csv_def)
  have ld: "filter (\<lambda>k. \<not> isl (load_country_df ex_fs ex_read_csv k)) [''benin'', ''togo''] =
       [''benin'', ''togo'']"
    by (simp add: ex_load_benin ex_load_togo)
  from combine_country_cell [OF c wf]
  have "rows ex_table = concat (map (\<lambda>k.
          map (reindex (columns (projr (load_country_df ex_fs ex_read_csv k))) (columns ex_table))
            (rows (projr (load_country_df ex_fs ex_read_csv k)))) [''benin'', ''togo''])"
    unfolding Let_def ld by blast
  then have r: "rows ex_table =
       map (reindex [''Timestamp'', ''GHI'', ''country''] (columns ex_table))
         [[Num 1, Num 10, Str ''benin''], [Num 2, Num 20, Str ''benin'']]
       @ map (reindex [''Timestamp'', ''GHI'', ''country''] (columns ex_table))
           [[Num 3, Num 30, Str ''togo'']]"
    by (simp add: ex_load_benin ex_load_togo assign_new_column_def ex_benin_def ex_togo_def)
  have v: "map (\<lambda>r. cell_at (columns ex_table) r ''country'') (rows ex_table) =
       [Str ''benin'', Str ''benin'', Str ''togo'']"
    by (simp add: ex_table_def cell_at_def)
  from c wb wt ld r v show ?thesis by simp
qed

text \<open>
  The file \<^verbatim>\<open>blank_clean.csv\<close> has a \<^verbatim>\<open>country\<close> column with a blank cell: the row reaches
  the combined table with a missing region label, which is none of the requested keys.
\<close>

theorem combine_country_null_counterexample:
  "combine_countries ex_fs ex_read_csv [''blank''] = ([], Inr ex_blank)
   \<and> column ex_blank ''country'' = [Null]
   \<and> Null \<noteq> Str ''blank''"
  by (simp add: combine_countries_def ex_load_blank ex_frame_defs column_def)

section \<open>Properties of \<^verbatim>\<open>fig_boxplot\<close>\<close>






text \<open>
  Claim C10. With \<^verbatim>\<open>sample_n\<close> equal to \<open>0\<close> or \<^verbatim>\<open>None\<close>, the table is returned as it is,
  whatever its size and whatever the generator: no sampling, no error.
\<close>

theorem fig_boxplot_falsy_sample_n:
  "fig_boxplot choice df (Some 0) = Inr df \<and> fig_boxplot choice df None = Inr df"
  by (simp add: fig_boxplot_def)

section \<open>Properties of \<^verbatim>\<open>top_regions_table\<close>\<close>

lemma set_insort_by: "set (insort_by le x xs) = insert x (set xs)"
  by (induction xs) auto

lemma set_sort_by: "set (sort_by le xs) = set xs"
  unfolding sort_by_def by (induction xs) (simp_all add: set_insort_by)

lemma set_head_subset: "set (head k xs) \<subseteq> set xs"
  by (auto simp: head_def dest: in_set_takeD)


lemma top_regions_table_rows:
  assumes "top_regions_table df metric top_n = Inr out" and "a \<in> set out"
  shows "\<exists>k\<in>set (group_keys df (group_col df)).
           a = aggregate k (numbers (group_values df (group_col df) metric k))"
proof -
  let ?table = "map (\<lambda>k. aggregate k (numbers (group_values df (group_col df) metric k)))
                      (group_keys df (group_col df))"
  from assms(1) have "out = head top_n (sort_by mean_ge ?table)"
    by (simp add: top_regions_table_def Let_def split: if_splits)
  with assms(2) have "a \<in> set ?table"
    using set_head_subset [of top_n "sort_by mean_ge ?table"] by (auto simp: set_sort_by)
  then show ?thesis by auto
qed

lemma length_numbers_le: "length (numbers vs) \<le> length vs"
  by (induction vs) (auto simp: numbers_def split: cell.splits)

lemma agg_key_aggregate: "agg_key (aggregate k xs) = k"
  and agg_n_aggregate: "agg_n (aggregate k xs) = length xs"
  and agg_mean_aggregate: "agg_mean (aggregate k xs) = mean_of xs"
  and agg_median_aggregate: "agg_median (aggregate k xs) = median_of xs"
  and agg_std_aggregate: "agg_std (aggregate k xs) = std_of xs"
  by (simp_all add: aggregate_def)



text \<open>
  Claim C7. A row of the returned table whose group has exactly one row in the frame has
  NaN as its standard deviation (\<open>None\<close>, so not \<open>0\<close>): pandas divides by the count less
  one and gives NaN when the count does not exceed one.
\<close>

theorem top_regions_table_single_row_std:
  assumes "top_regions_table df metric top_n = Inr out" and "a \<in> set out"
    and "length (filter (\<lambda>r. cell_at (columns df) r (group_col df) = agg_key a) (rows df)) = 1"
  shows "agg_std a = None \<and> agg_std a \<noteq> Some 0"
proof -
  from top_regions_table_rows [OF assms(1,2)] obtain k where
    a: "a = aggregate k (numbers (group_values df (group_col df) metric k))"
    by blast
  then have key: "agg_key a = k" by (simp add: agg_key_aggregate)
  have "length (numbers (group_values df (group_col df) metric k))
      \<le> length (group_values df (group_col df) metric k)"
    by (rule length_numbers_le)
  also have "\<dots> = 1" using assms(3) key by (simp add: group_values_def)
  finally have "std_of (numbers (group_values df (group_col df) metric k)) = None"
    by (simp add: std_of_def)
  with a show ?thesis by (simp add: agg_std_aggregate)
qed

theorem top_regions_table_single_row_std_witness:
  "top_regions_table ex_table ''GHI'' 10 =
     Inr [aggregate (Str ''togo'') [30], aggregate (Str ''benin'') [10, 20]]
   \<and> length (filter (\<lambda>r. cell_at (columns ex_table) r (group_col ex_table) = Str ''togo'')
        (rows ex_table)) = 1
   \<and> agg_std (aggregate (Str ''togo'') [30]) = None
   \<and> agg_mean (aggregate (Str ''togo'') [30]) = Some 30"
proof -
  let ?out = "[aggregate (Str ''togo'') [30], aggregate (Str ''benin'') [10, 20]]"
  have gc: "group_col ex_table = ''country''"
    by (simp add: group_col_def ex_table_def)
  have keys: "group_keys ex_table ''country'' = [Str ''benin'', Str ''togo'']"
    by (simp add: group_keys_def column_def ex_table_def cell_at_def sort_by_def)
  have t: "top_regions_table ex_table ''GHI'' 10 = Inr ?out"
    by (simp add: top_regions_table_def gc keys Let_def)
       (simp add: ex_table_def column_def cell_at_def is_str_def group_values_def numbers_def
          sort_by_def mean_ge_def agg_mean_aggregate mean_of_def head_def)
  have m: "aggregate (Str ''togo'') [30] \<in> set ?out" by simp
  have one: "length (filter (\<lambda>r. cell_at (columns ex_table) r (group_col ex_table) =
        agg_key (aggregate (Str ''togo'') [30])) (rows ex_table)) = 1"
    by (simp add: gc agg_key_aggregate) (simp add: ex_table_def cell_at_def)
  from top_regions_table_single_row_std [OF t m one]
  have std: "agg_std (aggregate (Str ''togo'') [30]) = None" by simp
  have mean: "agg_mean (aggregate (Str ''togo'') [30]) = Some 30"
    by (simp add: agg_mean_aggregate mean_of_def)
  from one have one': "length (filter (\<lambda>r. cell_at (columns ex_table) r (group_col ex_table) =
        Str ''togo'') (rows ex_table)) = 1"
    by (simp add: agg_key_aggregate)
  from t one' std mean show ?thesis by simp
qed

section \<open>Discovery against path resolution\<close>

lemma rfind_append_last:
  "c \<notin> set t \<Longrightarrow> rfind c (s @ c # t) = Some (length s)"
proof (induction s)
  case Nil
  have "rfind c t = None" using Nil by (induction t) auto
  then show ?case by simp
next
  case (Cons x s)
  then show ?case by simp
qed

lemma stem_csv: "s \<noteq> [] \<Longrightarrow> stem (s @ ''.csv'') = s"
  using rfind_append_last [of "CHR ''.''" "''csv''" s] by (simp add: stem_def)

lemma replace_suffix_only:
  assumes "suf \<noteq> []"
    and "\<forall>i<length k. \<not> startswith (drop i (k @ suf)) suf"
  shows "replace (k @ suf) suf [] = k"
  using assms(2)
proof (induction k)
  case Nil
  have "replace suf suf [] = replace [] suf []"
    using assms(1) by (subst replace.simps) (simp add: startswith_def)
  also have "\<dots> = []" using assms(1) by (subst replace.simps) simp
  finally show ?case by simp
next
  case (Cons x xs)
  from Cons.prems have no: "\<not> startswith ((x # xs) @ suf) suf" by force
  from Cons.prems have "\<forall>i<length xs. \<not> startswith (drop i (xs @ suf)) suf" by force
  then have ih: "replace (xs @ suf) suf [] = xs" by (rule Cons.IH)
  have "replace ((x # xs) @ suf) suf [] = x # replace (xs @ suf) suf []"
    using assms(1) no by (subst replace.simps) simp
  with ih show ?case by simp
qed

text \<open>
  Where discovery and path resolution do agree: for a file \<^verbatim>\<open>k_clean.csv\<close> whose key part
  \<open>k\<close> is followed by the only occurrence of \<^verbatim>\<open>_clean\<close> in the name, the key listed for
  the file is \<open>k\<close>, and the loader resolves \<open>k\<close> to that file of the data directory.
\<close>

lemma catalog_key_resolves_back:
  assumes "\<forall>i<length k. \<not> startswith (drop i (k @ ''_clean'')) ''_clean''"
    and "CHR ''/'' \<notin> set k"
  shows "list_available_countries (Inr [k @ ''_clean.csv'']) = ([], [k])
    \<and> country_path k = data_dir @ ''/'' @ (k @ ''_clean.csv'')"
proof -
  have m: "endswith (k @ ''_clean.csv'') ''_clean.csv''" by (simp add: endswith_def)
  have "stem (k @ ''_clean.csv'') = k @ ''_clean''"
    using stem_csv [of "k @ ''_clean''"] by simp
  moreover have "replace (k @ ''_clean'') ''_clean'' [] = k"
    using replace_suffix_only [OF _ assms(1)] by simp
  ultimately show ?thesis
    using m assms(2)
    by (simp add: list_available_countries_def glob_star_def country_path_plain data_dir_def)
qed

text \<open>
  Claim C9 fails on the code. \<^verbatim>\<open>str.replace\<close> removes every occurrence of \<^verbatim>\<open>_clean\<close>
  from the stem, not only the closing one: the file \<^verbatim>\<open>benin_clean_clean.csv\<close> matches the
  pattern and is listed under the key \<^verbatim>\<open>benin\<close>, which the loader resolves to
  \<^verbatim>\<open>data/benin_clean.csv\<close>, another file. Beside \<^verbatim>\<open>benin_clean.csv\<close> the key is listed
  twice.
\<close>

theorem catalog_key_not_inverse_of_path:
  "endswith ''benin_clean_clean.csv'' ''_clean.csv''
   \<and> list_available_countries (Inr [''benin_clean_clean.csv'']) = ([], [''benin''])
   \<and> country_path ''benin'' = ''data/benin_clean.csv''
   \<and> country_path ''benin'' \<noteq> data_dir @ ''/'' @ ''benin_clean_clean.csv''
   \<and> list_available_countries (Inr [''benin_clean_clean.csv'', ''benin_clean.csv'']) =
       ([], [''benin'', ''benin''])"
proof -
  have st: "stem ''benin_clean_clean.csv'' = ''benin_clean_clean''"
    and st': "stem ''benin_clean.csv'' = ''benin_clean''"
    by (simp_all add: stem_def)
  have r2: "replace ''benin_clean'' ''_clean'' [] = ''benin''"
    by (subst replace.simps, simp add: startswith_def)+
  have r4: "replace ''benin_clean_clean'' ''_clean'' [] = ''benin''"
    by (subst replace.simps, simp add: startswith_def)+
  have srt: "sort [''benin_clean_clean.csv'', ''benin_clean.csv''] =
      [''benin_clean.csv'', ''benin_clean_clean.csv'']"
    by simp
  have srt1: "sort [''benin_clean_clean.csv''] = [''benin_clean_clean.csv'']" by simp
  show ?thesis
    by (simp add: list_available_countries_def glob_star_def endswith_def country_path_plain
        data_dir_def st st' r2 r4 srt srt1 del: sort_key_simps)
qed

end
